theory Spec2Isabelle
  imports Main
begin

section \<open>Python values used by \<open>initialize_devnet.py\<close>\<close>

text \<open>
  A Python \<open>str\<close> is a sequence of Unicode code points, so it is modelled as a list of
  code points and not as a list of bytes: \<open>str.strip\<close> and \<open>json.dumps\<close> work on code
  points. \<open>lit\<close> turns an ASCII literal of the source into such a string; the seven
  non-ASCII characters of the source are written as their code points.
\<close>

type_synonym codepoint = nat
type_synonym pystr = "codepoint list"

definition lit :: "string \<Rightarrow> pystr" where
  "lit s = map of_char s"

text \<open>An exception object; \<open>str\<close> is Python's \<open>str(e)\<close>.\<close>

datatype exn = Exception (str: pystr)

text \<open>The object \<open>subprocess.run\<close> returns, with \<open>capture_output=True, text=True\<close>.\<close>

datatype completed_process =
  CompletedProcess (returncode: int) (stdout: pystr) (stderr: pystr)

section \<open>The process state\<close>

text \<open>
  The module globals of lines 13 to 23, the texts passed to \<open>print\<close> so far (one entry
  per call, without the newline that \<open>print\<close> adds), and the commands handed to
  \<open>subprocess.run\<close> so far.
\<close>

record world =
  PROGRAM_ID :: pystr
  RPC_ENDPOINT :: pystr
  VALIDATORS :: "pystr list"
  printed :: "pystr list"
  spawned :: "pystr list"

text \<open>
  The state once the module body up to line 23 has run: the imports of lines 5 to 10
  have succeeded and the three globals are bound.
\<close>

definition module_loaded :: world where
  "module_loaded =
     \<lparr> PROGRAM_ID = lit ''FfV3AHU6WS7aPz53DnVvWBMEZR46ydGkEtKpLiKfRTrR'',
       RPC_ENDPOINT = lit ''https://api.devnet.solana.com'',
       VALIDATORS =
         [ lit ''9mtqPQnWcdUJjVHqYaWGHwwFswHLAEaMkMoLMsctAfms'',
           lit ''3ogts3UmEwRBdGNScChzKpcreuPPNBC45TM148fCTEdM'',
           lit ''Eaph3z9pGPH9yUkDQdUZiG4ejEwMrUXxLsP7wGehBasy'',
           lit ''GseuivbeqFdgQnZuis1eYUjAE2bmZtA695uKxtuojdWD'',
           lit ''CbQDdW66fhxGBAxyuR1gHmvtGfvBcpMosaNWo8XNyJ5M'' ],
       printed = [],
       spawned = [] \<rparr>"

text \<open>
  The operating system is a parameter: what the \<open>n\<close>-th call of \<open>subprocess.run\<close> of
  this process does with a command. The call either returns a \<open>CompletedProcess\<close>, with
  any exit code, or raises an exception of class \<open>Exception\<close>: \<open>OSError\<close> when the
  process cannot be created, \<open>UnicodeDecodeError\<close> when the child has exited and its
  output is not text in the locale's encoding (section \<open>Below subprocess.run\<close> builds
  such a parameter from the child and the decoder). A child that never exits and an
  asynchronous \<open>KeyboardInterrupt\<close> are outside this model.
\<close>

type_synonym shell = "nat \<Rightarrow> pystr \<Rightarrow> exn + completed_process"

definition subprocess_run :: "shell \<Rightarrow> pystr \<Rightarrow> world \<Rightarrow> (exn + completed_process) \<times> world" where
  "subprocess_run sh cmd w =
     (sh (length (spawned w)) cmd, w\<lparr>spawned := spawned w @ [cmd]\<rparr>)"

text \<open>
  \<open>print\<close> as \<open>main\<close> sees it when standard output accepts the text. A \<open>print\<close>
  whose text standard output cannot encode raises \<open>UnicodeEncodeError\<close> and ends the
  run, since no \<open>print\<close> of \<open>main\<close> is inside a \<open>try\<close>; that is part of \<open>python3\<close>
  below.
\<close>

definition print :: "pystr \<Rightarrow> world \<Rightarrow> world" where
  "print s w = w\<lparr>printed := printed w @ [s]\<rparr>"

text \<open>What reaches standard output: every printed text followed by a newline.\<close>

definition sys_stdout :: "world \<Rightarrow> pystr" where
  "sys_stdout w = concat (map (\<lambda>s. s @ lit ''\<newline>'') (printed w))"

section \<open>Library functions the script calls\<close>

text \<open>\<open>str.isspace\<close> on one code point: the 29 code points CPython treats as whitespace.\<close>

definition isspace :: "codepoint \<Rightarrow> bool" where
  "isspace c \<longleftrightarrow>
     (0x09 \<le> c \<and> c \<le> 0x0D) \<or> (0x1C \<le> c \<and> c \<le> 0x20) \<or> c = 0x85 \<or> c = 0xA0 \<or>
     c = 0x1680 \<or> (0x2000 \<le> c \<and> c \<le> 0x200A) \<or> c = 0x2028 \<or> c = 0x2029 \<or>
     c = 0x202F \<or> c = 0x205F \<or> c = 0x3000"

text \<open>\<open>str.strip()\<close>: drop the leading whitespace, then the trailing whitespace.\<close>

definition strip :: "pystr \<Rightarrow> pystr" where
  "strip s = rev (dropWhile isspace (rev (dropWhile isspace s)))"

text \<open>The decimal text of a non-negative integer, as an f-string field renders it.\<close>

fun str_nat :: "nat \<Rightarrow> pystr" where
  "str_nat n = (if n < 10 then [48 + n] else str_nat (n div 10) @ [48 + n mod 10])"

declare str_nat.simps [simp del]

text \<open>
  \<open>json.dumps(xs, indent=k)\<close> for a list of strings, with the default
  \<open>ensure_ascii=True\<close>: the quote and the backslash are escaped, the five control
  characters with a short escape use it, every other code point outside \<open>0x20 .. 0x7E\<close>
  is written as \<open>\uXXXX\<close> (lower-case hexadecimal digits, a surrogate pair above
  \<open>0xFFFF\<close>).
\<close>

definition hexdigit :: "nat \<Rightarrow> codepoint" where
  "hexdigit d = (if d < 10 then 48 + d else 87 + d)"

definition hex4 :: "nat \<Rightarrow> pystr" where
  "hex4 n = [hexdigit (n div 4096 mod 16), hexdigit (n div 256 mod 16),
             hexdigit (n div 16 mod 16), hexdigit (n mod 16)]"

definition escape_ascii :: "codepoint \<Rightarrow> pystr" where
  "escape_ascii c =
     (if c = 0x5C then lit [CHR 0x5C, CHR 0x5C]
      else if c = 0x22 then lit [CHR 0x5C, CHR 0x22]
      else if c = 0x08 then lit [CHR 0x5C, CHR ''b'']
      else if c = 0x0C then lit [CHR 0x5C, CHR ''f'']
      else if c = 0x0A then lit [CHR 0x5C, CHR ''n'']
      else if c = 0x0D then lit [CHR 0x5C, CHR ''r'']
      else if c = 0x09 then lit [CHR 0x5C, CHR ''t'']
      else if 0x20 \<le> c \<and> c \<le> 0x7E then [c]
      else if c < 0x10000 then lit [CHR 0x5C, CHR ''u''] @ hex4 c
      else lit [CHR 0x5C, CHR ''u''] @ hex4 (0xD800 + (c - 0x10000) div 1024 mod 1024) @
           lit [CHR 0x5C, CHR ''u''] @ hex4 (0xDC00 + (c - 0x10000) mod 1024))"

definition py_encode_basestring_ascii :: "pystr \<Rightarrow> pystr" where
  "py_encode_basestring_ascii s = [0x22] @ concat (map escape_ascii s) @ [0x22]"

fun join :: "pystr \<Rightarrow> pystr list \<Rightarrow> pystr" where
  "join sep [] = []"
| "join sep [x] = x"
| "join sep (x # y # ys) = x @ sep @ join sep (y # ys)"

definition json_dumps :: "pystr list \<Rightarrow> nat \<Rightarrow> pystr" where
  "json_dumps xs indent =
     (if xs = [] then lit ''[]''
      else let newline_indent = lit ''\<newline>'' @ replicate indent 0x20
           in lit ''['' @ newline_indent @
              join (lit '','' @ newline_indent) (map py_encode_basestring_ascii xs) @
              lit ''\<newline>'' @ lit '']'')"

section \<open>The script\<close>

text \<open>
  \<open>run_cmd\<close> (lines 25 to 31): the \<open>try\<close> body returns the three fields of the result;
  the handler \<open>except Exception as e\<close> returns \<open>1, "", str(e)\<close>. The result type keeps
  the exceptional exit (\<open>Inl\<close>) that a Python call can take.
\<close>

definition run_cmd :: "shell \<Rightarrow> pystr \<Rightarrow> world \<Rightarrow> (exn + int \<times> pystr \<times> pystr) \<times> world" where
  "run_cmd sh cmd w =
     (case subprocess_run sh cmd w of
        (Inr result, w') \<Rightarrow> (Inr (returncode result, stdout result, stderr result), w')
      | (Inl e, w') \<Rightarrow> (Inr (1, [], str e), w'))"

text \<open>The three parts of the runbook printed after the second external call.\<close>

definition print_validator_list :: "world \<Rightarrow> world" where
  "print_validator_list w =
     fold (\<lambda>(i, v). print (lit ''  '' @ str_nat i @ lit ''. '' @ v))
          (List.enumerate 1 (VALIDATORS w))
          (print ([0x1F4CB] @ lit '' Validator List:'') w)"

definition print_next_steps :: "world \<Rightarrow> world" where
  "print_next_steps w =
     (let w = print (lit ''\<newline>'' @ [0x23F3] @ lit '' Next Steps:'') w;
          w = print (lit ''1. Use Solana Playground to call initialize instruction'') w;
          w = print (lit ''   - Quorum: 5 validators'') w;
          w = print (lit ''   - Min jurors: 2 (2/3 of 5 = 3.33 '' @ [0x2192] @ lit '' 4 required)'') w;
          w = print (lit ''\<newline>2. Call sync_validators with the validator list above'') w;
          w = print (lit ''\<newline>3. Submit a test case and vote with validators'') w
      in w)"

definition print_json :: "world \<Rightarrow> world" where
  "print_json w =
     (let w = print (lit ''\<newline>'' @ [0x1F4DD] @ lit '' Validator list JSON:'') w;
          w = print (json_dumps (VALIDATORS w) 2) w
      in w)"

text \<open>\<open>main\<close> (lines 33 to 65). \<open>Inr ()\<close> is a normal return, \<open>Inl e\<close> an uncaught exception.\<close>

definition main :: "shell \<Rightarrow> world \<Rightarrow> (exn + unit) \<times> world" where
  "main sh w =
     (let w = print ([0x1F680] @ lit '' SolSafe Devnet Initialization'') w;
          w = print (lit ''Program ID: '' @ PROGRAM_ID w) w;
          w = print (lit ''RPC: '' @ RPC_ENDPOINT w @ lit ''\<newline>'') w
      in case run_cmd sh (lit ''solana address'') w of
           (Inl e, w) \<Rightarrow> (Inl e, w)
         | (Inr (rc, out, err), w) \<Rightarrow>
             if rc \<noteq> 0 then (Inr (), print ([0x274C] @ lit '' Failed to get wallet: '' @ err) w)
             else
               (let wallet = strip out;
                    w = print ([0x2705] @ lit '' Wallet: '' @ wallet @ lit ''\<newline>'') w
                in (case run_cmd sh
                          (lit ''solana-keygen grind-validator --starts-with global:1 --starts-with global'') w of
                      (Inl e, w) \<Rightarrow> (Inl e, w)
                    | (Inr (rc, out, err), w) \<Rightarrow>
                        (Inr (), print_json (print_next_steps (print_validator_list w))))))"

text \<open>
  Lines 67 and 68, on a host where nothing outside \<open>main\<close> fails: the interpreter runs
  \<open>main()\<close> on the loaded module and exits with status 0 when it returns, with
  status 1 on an uncaught exception.
\<close>

definition script :: "shell \<Rightarrow> int \<times> world" where
  "script sh =
     (case main sh module_loaded of
        (Inr _, w) \<Rightarrow> (0, w)
      | (Inl e, w) \<Rightarrow> (1, w))"

section \<open>The interpreter around \<open>main\<close>\<close>



section \<open>Below \<open>subprocess.run\<close>: the child process and the text layer\<close>







section \<open>Reading the JSON block back\<close>

text \<open>
  The specification speaks of parsing the printed JSON block; the script itself has no
  parser. \<open>parseJSON\<close> is the reader that statement is measured against: it accepts
  a JSON array of strings as \<open>json.loads\<close> does (insignificant whitespace, the
  two-character escapes, \<open>\uXXXX\<close> with surrogate pairs joined, no raw control
  character inside a string) and returns \<open>None\<close> on any other text.
\<close>

definition json_ws :: "codepoint \<Rightarrow> bool" where
  "json_ws c \<longleftrightarrow> c = 0x20 \<or> c = 0x09 \<or> c = 0x0A \<or> c = 0x0D"

definition hexval :: "codepoint \<Rightarrow> nat option" where
  "hexval c =
     (if 0x30 \<le> c \<and> c \<le> 0x39 then Some (c - 0x30)
      else if 0x61 \<le> c \<and> c \<le> 0x66 then Some (c - 0x57)
      else if 0x41 \<le> c \<and> c \<le> 0x46 then Some (c - 0x37)
      else None)"

fun decode_uXXXX :: "pystr \<Rightarrow> nat option" where
  "decode_uXXXX (a # b # c # d # rest) =
     (case (hexval a, hexval b, hexval c, hexval d) of
        (Some p, Some q, Some r, Some s) \<Rightarrow> Some (((p * 16 + q) * 16 + r) * 16 + s)
      | _ \<Rightarrow> None)"
| "decode_uXXXX _ = None"

definition unescape :: "codepoint \<Rightarrow> codepoint option" where
  "unescape e =
     (if e = 0x22 \<or> e = 0x5C \<or> e = 0x2F then Some e
      else if e = 0x62 then Some 0x08
      else if e = 0x66 then Some 0x0C
      else if e = 0x6E then Some 0x0A
      else if e = 0x72 then Some 0x0D
      else if e = 0x74 then Some 0x09
      else None)"

definition emit :: "codepoint \<Rightarrow> (pystr \<times> pystr) option \<Rightarrow> (pystr \<times> pystr) option" where
  "emit c r = map_option (\<lambda>(s, rest). (c # s, rest)) r"

function scanstring :: "pystr \<Rightarrow> (pystr \<times> pystr) option" where
  "scanstring [] = None"
| "scanstring (c # cs) =
     (if c = 0x22 then Some ([], cs)
      else if c = 0x5C then
        (case cs of
           [] \<Rightarrow> None
         | e # es \<Rightarrow>
             if e = 0x75 then
               (case decode_uXXXX es of
                  None \<Rightarrow> None
                | Some uni \<Rightarrow>
                    if 0xD800 \<le> uni \<and> uni \<le> 0xDBFF \<and> take 2 (drop 4 es) = [0x5C, 0x75] then
                      (case decode_uXXXX (drop 6 es) of
                         None \<Rightarrow> None
                       | Some uni2 \<Rightarrow>
                           if 0xDC00 \<le> uni2 \<and> uni2 \<le> 0xDFFF then
                             emit (0x10000 + (uni - 0xD800) * 1024 + (uni2 - 0xDC00))
                                  (scanstring (drop 10 es))
                           else emit uni (scanstring (drop 4 es)))
                    else emit uni (scanstring (drop 4 es)))
             else (case unescape e of None \<Rightarrow> None | Some d \<Rightarrow> emit d (scanstring es)))
      else if c < 0x20 then None
      else emit c (scanstring cs))"
  by pat_completeness auto
termination
  by (relation "measure length") auto

text \<open>
  \<open>scanstring\<close> reads a string body up to its closing quote and returns the decoded
  text with the rest of the input; the rest is shorter, which is what lets the reader of
  the array elements terminate.
\<close>

lemma scanstring_shorter: "scanstring s = Some (x, r) \<Longrightarrow> length r < length s"
proof (induction s arbitrary: x r rule: scanstring.induct)
  case 1
  then show ?case by simp
next
  case (2 c cs)
  then show ?case
    by (fastforce simp: emit_def split: if_splits list.splits option.splits)
qed

function parse_elements :: "pystr \<Rightarrow> (pystr list \<times> pystr) option" where
  "parse_elements s =
     (case s of
        [] \<Rightarrow> None
      | c # cs \<Rightarrow>
          if c \<noteq> 0x22 then None
          else (case scanstring cs of
                  None \<Rightarrow> None
                | Some (x, r) \<Rightarrow>
                    (case dropWhile json_ws r of
                       [] \<Rightarrow> None
                     | d # ds \<Rightarrow>
                         if d = 0x5D then Some ([x], ds)
                         else if d = 0x2C then
                           map_option (\<lambda>(xs, rest). (x # xs, rest))
                                      (parse_elements (dropWhile json_ws ds))
                         else None)))"
  by pat_completeness auto
termination
proof (relation "measure length", goal_cases)
  case 1
  then show ?case by simp
next
  case (2 s c cs xr x r d ds)
  have "length (dropWhile json_ws ds) \<le> length ds"
    by (rule length_dropWhile_le)
  moreover have "length (d # ds) \<le> length r"
    using 2 length_dropWhile_le [of json_ws r] by simp
  moreover have "length r < length cs"
    using 2 scanstring_shorter [of cs x r] by simp
  ultimately show ?case using 2 by simp
qed

definition parseJSON :: "pystr \<Rightarrow> pystr list option" where
  "parseJSON s =
     (case dropWhile json_ws s of
        [] \<Rightarrow> None
      | c # cs \<Rightarrow>
          if c \<noteq> 0x5B then None
          else (case dropWhile json_ws cs of
                  [] \<Rightarrow> None
                | d # ds \<Rightarrow>
                    if d = 0x5D then (if dropWhile json_ws ds = [] then Some [] else None)
                    else (case parse_elements (d # ds) of
                            None \<Rightarrow> None
                          | Some (xs, r) \<Rightarrow> if dropWhile json_ws r = [] then Some xs else None)))"

declare parse_elements.simps [simp del]

lemma replicate_two: "replicate 2 x = [x, x]"
  by (simp add: numeral_2_eq_2)

section \<open>The texts the script prints\<close>

text \<open>
  The arguments of the \<open>print\<close> calls of \<open>main\<close>, in the order of the source: the
  banner (lines 34 to 36), the validator list (lines 53 to 55), the next steps (lines 57
  to 62) and the JSON block (lines 64 and 65).
\<close>

definition banner :: "world \<Rightarrow> pystr list" where
  "banner w =
     [ [0x1F680] @ lit '' SolSafe Devnet Initialization'',
       lit ''Program ID: '' @ PROGRAM_ID w,
       lit ''RPC: '' @ RPC_ENDPOINT w @ lit ''\<newline>'' ]"

definition validator_lines :: "pystr list \<Rightarrow> pystr list" where
  "validator_lines vs =
     ([0x1F4CB] @ lit '' Validator List:'') #
     map (\<lambda>(i, v). lit ''  '' @ str_nat i @ lit ''. '' @ v) (List.enumerate 1 vs)"

definition next_steps :: "pystr list" where
  "next_steps =
     [ lit ''\<newline>'' @ [0x23F3] @ lit '' Next Steps:'',
       lit ''1. Use Solana Playground to call initialize instruction'',
       lit ''   - Quorum: 5 validators'',
       lit ''   - Min jurors: 2 (2/3 of 5 = 3.33 '' @ [0x2192] @ lit '' 4 required)'',
       lit ''\<newline>2. Call sync_validators with the validator list above'',
       lit ''\<newline>3. Submit a test case and vote with validators'' ]"

definition json_block :: "pystr list \<Rightarrow> pystr list" where
  "json_block vs =
     [ lit ''\<newline>'' @ [0x1F4DD] @ lit '' Validator list JSON:'', json_dumps vs 2 ]"

definition runbook :: "pystr list \<Rightarrow> pystr list" where
  "runbook vs = validator_lines vs @ next_steps @ json_block vs"

section \<open>Three concrete runs\<close>

text \<open>
  The scenarios of the specification, as operating systems: in A the wallet CLI prints an
  address and the key-derivation command fails; in B every command exits with status 1
  and the text \<open>command not found\<close> on standard error; in C creating the process raises
  an \<open>OSError\<close>.
\<close>

definition scenario_A :: shell where
  "scenario_A n cmd =
     (if n = 0 then Inr (CompletedProcess 0 (lit ''7xKXtg2CW...devnetWallet\<newline>'') [])
      else Inr (CompletedProcess 1 [] (lit ''error: unrecognized subcommand\<newline>'')))"

definition scenario_B :: shell where
  "scenario_B n cmd = Inr (CompletedProcess 1 [] (lit ''command not found''))"

definition scenario_C :: shell where
  "scenario_C n cmd = Inl (Exception (lit ''[Errno 12] Cannot allocate memory''))"

text \<open>
  Three more: a wallet address padded with blanks and a second command that cannot
  start; a wallet call that prints only a blank and a newline; and scenario A with a
  second command that succeeds.
\<close>

definition scenario_padded :: shell where
  "scenario_padded n cmd =
     (if n = 0 then Inr (CompletedProcess 0 (lit ''  7xKXtg2CW...devnetWallet \<newline>'') (lit ''warning''))
      else Inl (Exception (lit ''[Errno 12] Cannot allocate memory'')))"

definition scenario_blank :: shell where
  "scenario_blank n cmd = Inr (CompletedProcess 0 (lit '' \<newline>'') [])"

definition scenario_A2 :: shell where
  "scenario_A2 n cmd =
     (if n = 0 then Inr (CompletedProcess 0 (lit ''7xKXtg2CW...devnetWallet\<newline>'') [])
      else Inr (CompletedProcess 0 (lit ''global1PDA\<newline>'') (lit ''Searching'')))"








section \<open>How the operations change the state\<close>

text \<open>
  What \<open>run_cmd\<close> returns depends on the state only through the number of commands
  run so far, and \<open>print\<close> does not change that number. So the result of the wallet
  call that \<open>main\<close> makes after its three banner prints is the result of the same call
  made from the state \<open>main\<close> starts in, which is how the statements below name it.
\<close>

lemma print_eq: "print s w = w\<lparr>printed := printed w @ [s]\<rparr>"
  by (simp add: print_def)

lemma fold_print:
  "fold (\<lambda>(i, v). print (f i v)) xs w = w\<lparr>printed := printed w @ map (\<lambda>(i, v). f i v) xs\<rparr>"
  by (induction xs arbitrary: w) (auto simp: print_def)

lemma print_validator_list_eq:
  "print_validator_list w = w\<lparr>printed := printed w @ validator_lines (VALIDATORS w)\<rparr>"
  by (simp add: print_validator_list_def validator_lines_def fold_print print_def)

lemma print_next_steps_eq:
  "print_next_steps w = w\<lparr>printed := printed w @ next_steps\<rparr>"
  by (simp add: print_next_steps_def next_steps_def print_def)

lemma print_json_eq:
  "print_json w = w\<lparr>printed := printed w @ json_block (VALIDATORS w)\<rparr>"
  by (simp add: print_json_def json_block_def print_def)

lemma run_cmd_world: "snd (run_cmd sh cmd w) = w\<lparr>spawned := spawned w @ [cmd]\<rparr>"
  by (simp add: run_cmd_def subprocess_run_def split: sum.splits)

lemma run_cmd_returns: "\<exists>rc out err. fst (run_cmd sh cmd w) = Inr (rc, out, err)"
  by (simp add: run_cmd_def subprocess_run_def split: sum.splits)

lemma run_cmd_frame:
  "spawned w' = spawned w \<Longrightarrow> fst (run_cmd sh cmd w') = fst (run_cmd sh cmd w)"
  by (simp add: run_cmd_def subprocess_run_def split: sum.splits)

lemma run_cmd_split:
  assumes "fst (run_cmd sh cmd w) = Inr t" and "spawned w' = spawned w"
  shows "run_cmd sh cmd w' = (Inr t, w'\<lparr>spawned := spawned w' @ [cmd]\<rparr>)"
proof -
  have "fst (run_cmd sh cmd w') = Inr t"
    using assms run_cmd_frame [of w' w sh cmd] by simp
  moreover have "snd (run_cmd sh cmd w') = w'\<lparr>spawned := spawned w' @ [cmd]\<rparr>"
    by (rule run_cmd_world)
  ultimately show ?thesis
    by (simp add: prod_eq_iff)
qed

lemma main_failure:
  assumes "fst (run_cmd sh (lit ''solana address'') w) = Inr (rc, out, err)" and "rc \<noteq> 0"
  shows "main sh w =
           (Inr (), w\<lparr>printed := printed w @ banner w @ [[0x274C] @ lit '' Failed to get wallet: '' @ err],
                      spawned := spawned w @ [lit ''solana address'']\<rparr>)"
proof -
  have first: "run_cmd sh (lit ''solana address'') w' =
                 (Inr (rc, out, err), w'\<lparr>spawned := spawned w' @ [lit ''solana address'']\<rparr>)"
    if "spawned w' = spawned w" for w'
    using assms(1) that by (rule run_cmd_split)
  show ?thesis
    using assms(2) by (simp add: main_def Let_def first print_def banner_def)
qed

lemma main_success:
  assumes "fst (run_cmd sh (lit ''solana address'') w) = Inr (0, out, err)"
  shows "main sh w =
           (Inr (), w\<lparr>printed := printed w @ banner w @
                                   [[0x2705] @ lit '' Wallet: '' @ strip out @ lit ''\<newline>''] @
                                   runbook (VALIDATORS w),
                      spawned := spawned w @ [lit ''solana address'',
                         lit ''solana-keygen grind-validator --starts-with global:1 --starts-with global'']\<rparr>)"
proof -
  have first: "run_cmd sh (lit ''solana address'') w' =
                 (Inr (0, out, err), w'\<lparr>spawned := spawned w' @ [lit ''solana address'']\<rparr>)"
    if "spawned w' = spawned w" for w'
    using assms(1) that by (rule run_cmd_split)
  let ?keygen = "lit ''solana-keygen grind-validator --starts-with global:1 --starts-with global''"
  obtain rc2 out2 err2 where
    "fst (run_cmd sh ?keygen (w\<lparr>spawned := spawned w @ [lit ''solana address'']\<rparr>)) = Inr (rc2, out2, err2)"
    using run_cmd_returns by blast
  then have second: "run_cmd sh ?keygen w' = (Inr (rc2, out2, err2), w'\<lparr>spawned := spawned w' @ [?keygen]\<rparr>)"
    if "spawned w' = spawned w @ [lit ''solana address'']" for w'
    using that by (intro run_cmd_split) auto
  show ?thesis
    by (simp add: main_def Let_def first second print_def banner_def runbook_def
        print_validator_list_eq print_next_steps_eq print_json_eq)
qed

lemma script_success:
  assumes "fst (run_cmd sh (lit ''solana address'') module_loaded) = Inr (0, out, err)"
  shows "script sh =
           (0, module_loaded\<lparr>printed := banner module_loaded @
                   [[0x2705] @ lit '' Wallet: '' @ strip out @ lit ''\<newline>''] @
                   runbook (VALIDATORS module_loaded),
                 spawned := [lit ''solana address'',
                   lit ''solana-keygen grind-validator --starts-with global:1 --starts-with global'']\<rparr>)"
  using main_success [OF assms] by (simp add: script_def module_loaded_def)

lemma validators_json_text:
  \<open>json_dumps (VALIDATORS module_loaded) 2 =
     join (lit ''\<newline>'')
       [ lit ''['',
         lit ''  "9mtqPQnWcdUJjVHqYaWGHwwFswHLAEaMkMoLMsctAfms",'',
         lit ''  "3ogts3UmEwRBdGNScChzKpcreuPPNBC45TM148fCTEdM",'',
         lit ''  "Eaph3z9pGPH9yUkDQdUZiG4ejEwMrUXxLsP7wGehBasy",'',
         lit ''  "GseuivbeqFdgQnZuis1eYUjAE2bmZtA695uKxtuojdWD",'',
         lit ''  "CbQDdW66fhxGBAxyuR1gHmvtGfvBcpMosaNWo8XNyJ5M"'',
         lit '']'' ]\<close>
  by (simp add: json_dumps_def module_loaded_def lit_def py_encode_basestring_ascii_def
      escape_ascii_def replicate_two)

lemma validators_json_parse:
  "parseJSON (json_dumps (VALIDATORS module_loaded) 2) = Some (VALIDATORS module_loaded)"
  by (simp add: parseJSON_def json_dumps_def module_loaded_def lit_def py_encode_basestring_ascii_def
      escape_ascii_def json_ws_def parse_elements.simps emit_def replicate_two)


lemma main_globals:
  "PROGRAM_ID (snd (main sh w)) = PROGRAM_ID w \<and>
   RPC_ENDPOINT (snd (main sh w)) = RPC_ENDPOINT w \<and>
   VALIDATORS (snd (main sh w)) = VALIDATORS w"
proof -
  obtain rc out err where
    r: "fst (run_cmd sh (lit ''solana address'') w) = Inr (rc, out, err)"
    using run_cmd_returns by blast
  show ?thesis
  proof (cases "rc = 0")
    case True
    with r show ?thesis by (simp add: main_success)
  next
    case False
    with r show ?thesis by (simp add: main_failure)
  qed
qed




section \<open>\<open>strip\<close> removes the surrounding whitespace\<close>

lemma last_dropWhile: "dropWhile P xs \<noteq> [] \<Longrightarrow> last (dropWhile P xs) = last xs"
  by (induction xs) (auto split: if_splits)

lemma rev_dropWhile_takeWhile:
  "rev (dropWhile P (rev xs)) @ rev (takeWhile P (rev xs)) = xs"
proof -
  have "rev (takeWhile P (rev xs) @ dropWhile P (rev xs)) = rev (rev xs)"
    by (simp only: takeWhile_dropWhile_id)
  then show ?thesis
    by (simp only: rev_append rev_rev_ident)
qed

lemma strip_decomposition:
  "s = takeWhile isspace s @ strip s @ rev (takeWhile isspace (rev (dropWhile isspace s)))"
proof -
  have "strip s @ rev (takeWhile isspace (rev (dropWhile isspace s))) = dropWhile isspace s"
    unfolding strip_def by (rule rev_dropWhile_takeWhile)
  then show ?thesis
    by (simp only: takeWhile_dropWhile_id)
qed

lemma strip_ends:
  assumes "strip s \<noteq> []"
  shows "\<not> isspace (hd (strip s)) \<and> \<not> isspace (last (strip s))"
proof -
  let ?t = "dropWhile isspace s"
  let ?u = "dropWhile isspace (rev ?t)"
  from assms have u: "?u \<noteq> []"
    by (simp add: strip_def)
  have "?u = []" if "?t = []"
    by (simp only: that rev.simps dropWhile.simps)
  with u have t: "?t \<noteq> []"
    by blast
  have "last (strip s) = hd ?u"
    using u by (simp add: strip_def last_rev)
  moreover have "\<not> isspace (hd ?u)"
    using u by (rule hd_dropWhile)
  moreover have "hd (strip s) = last ?u"
    using u by (simp add: strip_def hd_rev)
  moreover have "last ?u = last (rev ?t)"
    using u by (rule last_dropWhile)
  moreover have "last (rev ?t) = hd ?t"
    using t by (simp add: last_rev)
  moreover have "\<not> isspace (hd ?t)"
    using t by (rule hd_dropWhile)
  ultimately show ?thesis
    by simp
qed

lemma strip_whitespace:
  assumes "\<forall>c\<in>set s. isspace c"
  shows "strip s = []"
proof -
  have "dropWhile isspace s = []"
    using assms by (simp add: dropWhile_eq_Nil_conv)
  then show ?thesis
    by (simp only: strip_def rev.simps dropWhile.simps)
qed

lemma strip_surrounded:
  assumes "\<forall>c\<in>set pre. isspace c" and "\<forall>c\<in>set post. isspace c"
    and "W \<noteq> [] \<longrightarrow> \<not> isspace (hd W) \<and> \<not> isspace (last W)"
  shows "strip (pre @ W @ post) = W"
proof (cases "W = []")
  case True
  with assms have "\<forall>c\<in>set (pre @ W @ post). isspace c"
    by auto
  then have "strip (pre @ W @ post) = []"
    by (rule strip_whitespace)
  with True show ?thesis by simp
next
  case False
  with assms(3) obtain a as where W: "W = a # as" and a: "\<not> isspace a"
    by (cases W) auto
  from False assms(3) obtain bs b where W': "W = bs @ [b]" and b: "\<not> isspace b"
    by (cases W rule: rev_cases) auto
  have "dropWhile isspace (pre @ W @ post) = W @ post"
    using assms(1) a W by (simp add: dropWhile_append3)
  moreover have "dropWhile isspace (rev (W @ post)) = rev W"
    using assms(2) b W' by (simp add: dropWhile_append3)
  ultimately show ?thesis
    by (simp add: strip_def)
qed

section \<open>The claims\<close>

text \<open>
  C1. Whenever \<open>run_cmd("solana address")\<close> returns a non-zero exit code, \<open>main\<close>
  returns normally and everything it has printed after the three banner texts is one
  text, the error message \<open>Failed to get wallet:\<close> followed by the captured standard
  error: no validator list, no next steps, no JSON block. The third conjunct is the same
  fact on the character stream of standard output.
\<close>

theorem main_wallet_failure:
  assumes "fst (run_cmd sh (lit ''solana address'') w) = Inr (rc, out, err)" and "rc \<noteq> 0"
  shows "fst (main sh w) = Inr () \<and>
         printed (snd (main sh w)) =
           printed w @ banner w @ [[0x274C] @ lit '' Failed to get wallet: '' @ err] \<and>
         sys_stdout (snd (main sh w)) =
           sys_stdout w @ sys_stdout (w\<lparr>printed := banner w\<rparr>) @
           [0x274C] @ lit '' Failed to get wallet: '' @ err @ lit ''\<newline>''"
  using main_failure [OF assms] by (simp add: sys_stdout_def)

theorem main_wallet_failure_witness:
  "fst (run_cmd scenario_B (lit ''solana address'') module_loaded) = Inr (1, [], lit ''command not found'') \<and>
   (1::int) \<noteq> 0 \<and>
   fst (main scenario_B module_loaded) = Inr () \<and>
   printed (snd (main scenario_B module_loaded)) =
     [ [0x1F680] @ lit '' SolSafe Devnet Initialization'',
       lit ''Program ID: FfV3AHU6WS7aPz53DnVvWBMEZR46ydGkEtKpLiKfRTrR'',
       lit ''RPC: https://api.devnet.solana.com\<newline>'',
       [0x274C] @ lit '' Failed to get wallet: command not found'' ]"
proof -
  have h: "fst (run_cmd scenario_B (lit ''solana address'') module_loaded) = Inr (1, [], lit ''command not found'')"
    by (simp add: run_cmd_def subprocess_run_def scenario_B_def)
  show ?thesis
    using h main_wallet_failure [OF h] by (simp add: banner_def module_loaded_def lit_def)
qed




text \<open>
  C3. In every run of the script whose wallet call succeeds, the last text printed is
  \<open>json.dumps\<close> of the validator list with indent 2; read back by \<open>parseJSON\<close> it is
  the list of the five validator identifiers in their order; and it is the seven lines
  shown, each identifier indented by two spaces.
\<close>

theorem json_block_roundtrip:
  assumes \<open>fst (run_cmd sh (lit ''solana address'') module_loaded) = Inr (0, out, err)\<close>
  shows \<open>last (printed (snd (script sh))) = json_dumps (VALIDATORS module_loaded) 2 \<and>
         parseJSON (last (printed (snd (script sh)))) =
           Some [ lit ''9mtqPQnWcdUJjVHqYaWGHwwFswHLAEaMkMoLMsctAfms'',
                  lit ''3ogts3UmEwRBdGNScChzKpcreuPPNBC45TM148fCTEdM'',
                  lit ''Eaph3z9pGPH9yUkDQdUZiG4ejEwMrUXxLsP7wGehBasy'',
                  lit ''GseuivbeqFdgQnZuis1eYUjAE2bmZtA695uKxtuojdWD'',
                  lit ''CbQDdW66fhxGBAxyuR1gHmvtGfvBcpMosaNWo8XNyJ5M'' ] \<and>
         last (printed (snd (script sh))) =
           join (lit ''\<newline>'')
             [ lit ''['',
               lit ''  "9mtqPQnWcdUJjVHqYaWGHwwFswHLAEaMkMoLMsctAfms",'',
               lit ''  "3ogts3UmEwRBdGNScChzKpcreuPPNBC45TM148fCTEdM",'',
               lit ''  "Eaph3z9pGPH9yUkDQdUZiG4ejEwMrUXxLsP7wGehBasy",'',
               lit ''  "GseuivbeqFdgQnZuis1eYUjAE2bmZtA695uKxtuojdWD",'',
               lit ''  "CbQDdW66fhxGBAxyuR1gHmvtGfvBcpMosaNWo8XNyJ5M"'',
               lit '']'' ]\<close>
proof -
  have l: "last (printed (snd (script sh))) = json_dumps (VALIDATORS module_loaded) 2"
    unfolding script_success [OF assms] by (simp add: runbook_def json_block_def)
  have v: "VALIDATORS module_loaded =
             [ lit ''9mtqPQnWcdUJjVHqYaWGHwwFswHLAEaMkMoLMsctAfms'',
               lit ''3ogts3UmEwRBdGNScChzKpcreuPPNBC45TM148fCTEdM'',
               lit ''Eaph3z9pGPH9yUkDQdUZiG4ejEwMrUXxLsP7wGehBasy'',
               lit ''GseuivbeqFdgQnZuis1eYUjAE2bmZtA695uKxtuojdWD'',
               lit ''CbQDdW66fhxGBAxyuR1gHmvtGfvBcpMosaNWo8XNyJ5M'' ]"
    by (simp add: module_loaded_def)
  show ?thesis
    using validators_json_parse validators_json_text by (simp add: l v)
qed

theorem json_block_roundtrip_witness:
  "fst (run_cmd scenario_A (lit ''solana address'') module_loaded) =
     Inr (0, lit ''7xKXtg2CW...devnetWallet\<newline>'', []) \<and>
   parseJSON (last (printed (snd (script scenario_A)))) =
     Some [ lit ''9mtqPQnWcdUJjVHqYaWGHwwFswHLAEaMkMoLMsctAfms'',
            lit ''3ogts3UmEwRBdGNScChzKpcreuPPNBC45TM148fCTEdM'',
            lit ''Eaph3z9pGPH9yUkDQdUZiG4ejEwMrUXxLsP7wGehBasy'',
            lit ''GseuivbeqFdgQnZuis1eYUjAE2bmZtA695uKxtuojdWD'',
            lit ''CbQDdW66fhxGBAxyuR1gHmvtGfvBcpMosaNWo8XNyJ5M'' ]"
proof -
  have a: "fst (run_cmd scenario_A (lit ''solana address'') module_loaded) =
             Inr (0, lit ''7xKXtg2CW...devnetWallet\<newline>'', [])"
    by (simp add: run_cmd_def subprocess_run_def scenario_A_def module_loaded_def)
  show ?thesis
    using a json_block_roundtrip [OF a] by blast
qed



text \<open>
  C5. When the wallet call returns exit code 0 and standard output \<open>out\<close>, the fourth
  printed text is the wallet line with \<open>out.strip()\<close> in it. \<open>out.strip()\<close> is \<open>out\<close>
  without its leading and trailing whitespace: \<open>out\<close> is whitespace, then the stripped
  text, then whitespace; the stripped text neither starts nor ends with whitespace; and
  whenever \<open>out\<close> is a text \<open>W\<close> that neither starts nor ends with whitespace,
  surrounded by whitespace, the stripped text is \<open>W\<close>.
\<close>

theorem wallet_line_trimmed:
  assumes "fst (run_cmd sh (lit ''solana address'') w) = Inr (0, out, err)"
  shows "printed (snd (main sh w)) ! (length (printed w) + 3) =
           [0x2705] @ lit '' Wallet: '' @ strip out @ lit ''\<newline>'' \<and>
         (\<exists>pre post. out = pre @ strip out @ post \<and>
                     (\<forall>c\<in>set pre. isspace c) \<and> (\<forall>c\<in>set post. isspace c)) \<and>
         (strip out \<noteq> [] \<longrightarrow> \<not> isspace (hd (strip out)) \<and> \<not> isspace (last (strip out))) \<and>
         (\<forall>pre W post. out = pre @ W @ post \<and> (\<forall>c\<in>set pre. isspace c) \<and>
              (\<forall>c\<in>set post. isspace c) \<and>
              (W \<noteq> [] \<longrightarrow> \<not> isspace (hd W) \<and> \<not> isspace (last W)) \<longrightarrow> strip out = W)"
proof -
  have "printed (snd (main sh w)) ! (length (printed w) + 3) =
          [0x2705] @ lit '' Wallet: '' @ strip out @ lit ''\<newline>''"
    unfolding main_success [OF assms] by (simp add: banner_def nth_append)
  moreover have "\<exists>pre post. out = pre @ strip out @ post \<and>
                     (\<forall>c\<in>set pre. isspace c) \<and> (\<forall>c\<in>set post. isspace c)"
  proof (intro exI conjI)
    show "out = takeWhile isspace out @ strip out @
                  rev (takeWhile isspace (rev (dropWhile isspace out)))"
      by (rule strip_decomposition)
    show "\<forall>c\<in>set (takeWhile isspace out). isspace c"
      by (auto dest: set_takeWhileD)
    show "\<forall>c\<in>set (rev (takeWhile isspace (rev (dropWhile isspace out)))). isspace c"
      by (auto dest: set_takeWhileD)
  qed
  moreover have "strip out \<noteq> [] \<longrightarrow> \<not> isspace (hd (strip out)) \<and> \<not> isspace (last (strip out))"
    using strip_ends by blast
  moreover have "\<forall>pre W post. out = pre @ W @ post \<and> (\<forall>c\<in>set pre. isspace c) \<and>
              (\<forall>c\<in>set post. isspace c) \<and>
              (W \<noteq> [] \<longrightarrow> \<not> isspace (hd W) \<and> \<not> isspace (last W)) \<longrightarrow> strip out = W"
    using strip_surrounded by blast
  ultimately show ?thesis
    by blast
qed

theorem wallet_line_trimmed_witness:
  "fst (run_cmd scenario_padded (lit ''solana address'') module_loaded) =
     Inr (0, lit ''  7xKXtg2CW...devnetWallet \<newline>'', lit ''warning'') \<and>
   printed (snd (main scenario_padded module_loaded)) ! 3 =
     [0x2705] @ lit '' Wallet: 7xKXtg2CW...devnetWallet\<newline>''"
proof -
  have a: "fst (run_cmd scenario_padded (lit ''solana address'') module_loaded) =
             Inr (0, lit ''  7xKXtg2CW...devnetWallet \<newline>'', lit ''warning'')"
    by (simp add: run_cmd_def subprocess_run_def scenario_padded_def module_loaded_def)
  have s: "strip (lit ''  7xKXtg2CW...devnetWallet \<newline>'') = lit ''7xKXtg2CW...devnetWallet''"
    by (simp add: strip_def isspace_def lit_def)
  have p: "length (printed module_loaded) + 3 = 3"
    by (simp add: module_loaded_def)
  have t: "lit '' Wallet: '' @ lit ''7xKXtg2CW...devnetWallet'' @ lit ''\<newline>'' =
             lit '' Wallet: 7xKXtg2CW...devnetWallet\<newline>''"
    by (simp add: lit_def)
  have "printed (snd (main scenario_padded module_loaded)) ! (length (printed module_loaded) + 3) =
          [0x2705] @ lit '' Wallet: '' @ strip (lit ''  7xKXtg2CW...devnetWallet \<newline>'') @ lit ''\<newline>''"
    using wallet_line_trimmed [OF a] by (rule conjunct1)
  then have "printed (snd (main scenario_padded module_loaded)) ! 3 =
          [0x2705] @ lit '' Wallet: 7xKXtg2CW...devnetWallet\<newline>''"
    by (simp only: s p t)
  with a show ?thesis
    by (rule conjI)
qed

text \<open>
  C6. Two runs from the same state whose wallet calls return the same triple end in the
  same state, with the same printed texts and the same return of \<open>main\<close>, however the
  two operating systems answer the second command.
\<close>

theorem second_call_noninterference:
  assumes "fst (run_cmd sh1 (lit ''solana address'') w) = fst (run_cmd sh2 (lit ''solana address'') w)"
  shows "main sh1 w = main sh2 w"
proof -
  obtain rc out err where
    r1: "fst (run_cmd sh1 (lit ''solana address'') w) = Inr (rc, out, err)"
    using run_cmd_returns by blast
  with assms have r2: "fst (run_cmd sh2 (lit ''solana address'') w) = Inr (rc, out, err)"
    by simp
  show ?thesis
  proof (cases "rc = 0")
    case True
    with r1 r2 show ?thesis by (simp add: main_success)
  next
    case False
    with r1 r2 show ?thesis by (simp add: main_failure)
  qed
qed

theorem second_call_noninterference_witness:
  "fst (run_cmd scenario_A (lit ''solana address'') module_loaded) =
     fst (run_cmd scenario_A2 (lit ''solana address'') module_loaded) \<and>
   scenario_A 1 (lit ''solana-keygen grind-validator --starts-with global:1 --starts-with global'') =
     Inr (CompletedProcess 1 [] (lit ''error: unrecognized subcommand\<newline>'')) \<and>
   scenario_A2 1 (lit ''solana-keygen grind-validator --starts-with global:1 --starts-with global'') =
     Inr (CompletedProcess 0 (lit ''global1PDA\<newline>'') (lit ''Searching'')) \<and>
   main scenario_A module_loaded = main scenario_A2 module_loaded"
proof -
  have a: "fst (run_cmd scenario_A (lit ''solana address'') module_loaded) =
             fst (run_cmd scenario_A2 (lit ''solana address'') module_loaded)"
    by (simp add: run_cmd_def subprocess_run_def scenario_A_def scenario_A2_def module_loaded_def)
  show ?thesis
    using a second_call_noninterference [OF a] by (simp add: scenario_A_def scenario_A2_def)
qed




text \<open>
  C8. \<open>PROGRAM_ID\<close>, \<open>RPC_ENDPOINT\<close> and \<open>VALIDATORS\<close> have the same values after
  \<open>run_cmd\<close>, after \<open>print\<close>, after each of the three printing phases, after
  \<open>main\<close> and at the end of the script as before.
\<close>

theorem globals_never_mutated:
  "(PROGRAM_ID (snd (run_cmd sh cmd w)) = PROGRAM_ID w \<and>
    RPC_ENDPOINT (snd (run_cmd sh cmd w)) = RPC_ENDPOINT w \<and>
    VALIDATORS (snd (run_cmd sh cmd w)) = VALIDATORS w) \<and>
   (PROGRAM_ID (print s w) = PROGRAM_ID w \<and>
    RPC_ENDPOINT (print s w) = RPC_ENDPOINT w \<and>
    VALIDATORS (print s w) = VALIDATORS w) \<and>
   (PROGRAM_ID (print_validator_list w) = PROGRAM_ID w \<and>
    RPC_ENDPOINT (print_validator_list w) = RPC_ENDPOINT w \<and>
    VALIDATORS (print_validator_list w) = VALIDATORS w) \<and>
   (PROGRAM_ID (print_next_steps w) = PROGRAM_ID w \<and>
    RPC_ENDPOINT (print_next_steps w) = RPC_ENDPOINT w \<and>
    VALIDATORS (print_next_steps w) = VALIDATORS w) \<and>
   (PROGRAM_ID (print_json w) = PROGRAM_ID w \<and>
    RPC_ENDPOINT (print_json w) = RPC_ENDPOINT w \<and>
    VALIDATORS (print_json w) = VALIDATORS w) \<and>
   (PROGRAM_ID (snd (main sh w)) = PROGRAM_ID w \<and>
    RPC_ENDPOINT (snd (main sh w)) = RPC_ENDPOINT w \<and>
    VALIDATORS (snd (main sh w)) = VALIDATORS w) \<and>
   (PROGRAM_ID (snd (script sh)) = PROGRAM_ID module_loaded \<and>
    RPC_ENDPOINT (snd (script sh)) = RPC_ENDPOINT module_loaded \<and>
    VALIDATORS (snd (script sh)) = VALIDATORS module_loaded)"
proof -
  have "snd (script sh) = snd (main sh module_loaded)"
    by (simp add: script_def split: prod.splits sum.splits)
  then show ?thesis
    using main_globals [of sh w] main_globals [of sh module_loaded]
    by (simp add: run_cmd_world print_eq print_validator_list_eq print_next_steps_eq print_json_eq)
qed

text \<open>
  C9. When the wallet call returns exit code 0 and a standard output that is empty or
  all whitespace, \<open>main\<close> returns normally and prints the banner, the wallet line with
  an empty address and the whole runbook: nothing checks the form of the address.
\<close>

theorem blank_wallet_accepted:
  assumes "fst (run_cmd sh (lit ''solana address'') w) = Inr (0, out, err)"
    and "\<forall>c\<in>set out. isspace c"
  shows "fst (main sh w) = Inr () \<and>
         printed (snd (main sh w)) =
           printed w @ banner w @ [[0x2705] @ lit '' Wallet: '' @ lit ''\<newline>''] @
           runbook (VALIDATORS w)"
  using main_success [OF assms(1)] strip_whitespace [OF assms(2)] by simp

theorem blank_wallet_accepted_witness:
  "fst (run_cmd scenario_blank (lit ''solana address'') module_loaded) = Inr (0, lit '' \<newline>'', []) \<and>
   fst (main scenario_blank module_loaded) = Inr () \<and>
   printed (snd (main scenario_blank module_loaded)) =
     banner module_loaded @ [[0x2705] @ lit '' Wallet: \<newline>''] @
     runbook (VALIDATORS module_loaded) \<and>
   length (printed (snd (main scenario_blank module_loaded))) = 18"
proof -
  have a: "fst (run_cmd scenario_blank (lit ''solana address'') module_loaded) = Inr (0, lit '' \<newline>'', [])"
    by (simp add: run_cmd_def subprocess_run_def scenario_blank_def)
  have b: "\<forall>c\<in>set (lit '' \<newline>''). isspace c"
    by (simp add: lit_def isspace_def)
  show ?thesis
    using a blank_wallet_accepted [OF a b]
    by (simp add: module_loaded_def lit_def banner_def runbook_def validator_lines_def
        next_steps_def json_block_def)
qed

text \<open>
  C10. When the wallet call returns a non-zero exit code, \<open>main\<close> has handed exactly
  one command to \<open>subprocess.run\<close>, \<open>solana address\<close>; the key-derivation command
  is run only after a wallet call that returned 0.
\<close>

theorem main_spawns:
  assumes "fst (run_cmd sh (lit ''solana address'') w) = Inr (rc, out, err)"
  shows "(rc \<noteq> 0 \<longrightarrow> spawned (snd (main sh w)) = spawned w @ [lit ''solana address'']) \<and>
         (rc = 0 \<longrightarrow> spawned (snd (main sh w)) =
            spawned w @ [lit ''solana address'',
              lit ''solana-keygen grind-validator --starts-with global:1 --starts-with global''])"
  using assms by (auto simp: main_failure main_success)

theorem main_spawns_witness:
  "fst (run_cmd scenario_B (lit ''solana address'') module_loaded) = Inr (1, [], lit ''command not found'') \<and>
   (1::int) \<noteq> 0 \<and>
   spawned (snd (main scenario_B module_loaded)) = [lit ''solana address''] \<and>
   length (spawned (snd (main scenario_B module_loaded))) = 1 \<and>
   fst (run_cmd scenario_A (lit ''solana address'') module_loaded) =
     Inr (0, lit ''7xKXtg2CW...devnetWallet\<newline>'', []) \<and>
   spawned (snd (main scenario_A module_loaded)) =
     [lit ''solana address'',
      lit ''solana-keygen grind-validator --starts-with global:1 --starts-with global'']"
proof -
  have b: "fst (run_cmd scenario_B (lit ''solana address'') module_loaded) = Inr (1, [], lit ''command not found'')"
    by (simp add: run_cmd_def subprocess_run_def scenario_B_def)
  have a: "fst (run_cmd scenario_A (lit ''solana address'') module_loaded) =
             Inr (0, lit ''7xKXtg2CW...devnetWallet\<newline>'', [])"
    by (simp add: run_cmd_def subprocess_run_def scenario_A_def module_loaded_def)
  show ?thesis
    using a b main_spawns [OF b] main_spawns [OF a] by (simp add: module_loaded_def)
qed

end
